theory Spec2Isabelle
  imports Main
begin

section \<open>Exceptions, the operating system interface and the effect trace\<close>

text \<open>
  The program (\<^verbatim>\<open>src/new.py\<close>) drives an external daemon through \<^verbatim>\<open>psutil\<close>,
  \<^verbatim>\<open>subprocess\<close>, \<^verbatim>\<open>os.path\<close>, \<^verbatim>\<open>time\<close> and \<^verbatim>\<open>aria2p\<close>. Those libraries are
  not part of the repository: every call into them is a field of the record \<open>env\<close>,
  a function of an abstract world \<open>'w\<close>. A call that only reads (the socket table, the
  process table, file existence, \<^verbatim>\<open>Popen.poll\<close>, the RPC listing) is a function of the
  world; a call that acts returns the new world. Every acting call is also appended to
  an event trace, so that what the code did can be stated.

  A raised exception is a value: its class and its message (\<^verbatim>\<open>str(e)\<close>).
\<close>

datatype exn_class = AccessDenied | NoSuchProcess | TimeoutExpired | ValueError | KeyError | OSError

datatype exn = Exn (cls: exn_class) (msg: string)

record conn =
  laddr_port :: int
  status :: string

text \<open>\<^verbatim>\<open>proc.info['name']\<close> is \<^verbatim>\<open>None\<close> when psutil could not read the name.\<close>

record proc_info =
  pid :: nat
  name :: "string option"

record download =
  gid :: string
  dl_name :: string
  dl_status :: string
  progress_text :: string
  speed_text :: string
  size_text :: string

type_synonym options = "(string \<times> string) list"
type_synonym client = "int \<times> string"

datatype popen_mode = WindowsDetached | PosixNewSession

datatype event =
    Popen "string list" popen_mode
  | Terminate nat
  | Wait nat nat
  | Kill nat
  | ProcTerminate nat
  | Sleep nat
  | Makedirs string
  | AddMagnet string options
  | AddTorrent string options
  | AddUris "string list" options
  | ShowError
  | ShowWarning

text \<open>
  \<^verbatim>\<open>psutil.net_connections()\<close> returns a list or raises. \<^verbatim>\<open>psutil.process_iter\<close> is a
  generator: it yields some processes and then either ends or raises, which is the pair
  of the yielded items and the final exception, if any.
\<close>

record 'w env =
  platform_system :: string
  environ_PATH :: "string option"
  expanduser :: "string \<Rightarrow> string"
  path_join :: "string \<Rightarrow> string \<Rightarrow> string"
  path_exists :: "'w \<Rightarrow> string \<Rightarrow> bool"
  net_connections :: "'w \<Rightarrow> exn + conn list"
  process_iter :: "'w \<Rightarrow> proc_info list \<times> exn option"
  popen :: "string list \<Rightarrow> popen_mode \<Rightarrow> 'w \<Rightarrow> (exn + nat) \<times> 'w"
  poll :: "nat \<Rightarrow> 'w \<Rightarrow> int option"
  terminate :: "nat \<Rightarrow> 'w \<Rightarrow> exn option \<times> 'w"
  wait :: "nat \<Rightarrow> nat \<Rightarrow> 'w \<Rightarrow> exn option \<times> 'w"
  kill :: "nat \<Rightarrow> 'w \<Rightarrow> exn option \<times> 'w"
  proc_terminate :: "nat \<Rightarrow> 'w \<Rightarrow> exn option \<times> 'w"
  sleep :: "nat \<Rightarrow> 'w \<Rightarrow> 'w"
  makedirs :: "string \<Rightarrow> 'w \<Rightarrow> exn option \<times> 'w"
  get_downloads :: "client \<Rightarrow> 'w \<Rightarrow> exn + download list"
  add_magnet :: "client \<Rightarrow> string \<Rightarrow> options \<Rightarrow> 'w \<Rightarrow> (exn + download) \<times> 'w"
  add_torrent :: "client \<Rightarrow> string \<Rightarrow> options \<Rightarrow> 'w \<Rightarrow> (exn + download) \<times> 'w"
  add_uris :: "client \<Rightarrow> string list \<Rightarrow> options \<Rightarrow> 'w \<Rightarrow> (exn + download) \<times> 'w"

type_synonym 'w sys = "'w \<times> event list"

definition do_popen :: "'w env \<Rightarrow> string list \<Rightarrow> popen_mode \<Rightarrow> 'w sys \<Rightarrow> (exn + nat) \<times> 'w sys" where
  "do_popen e cmd m s =
     (case popen e cmd m (fst s) of (r, w') \<Rightarrow> (r, (w', snd s @ [Popen cmd m])))"

definition do_terminate :: "'w env \<Rightarrow> nat \<Rightarrow> 'w sys \<Rightarrow> exn option \<times> 'w sys" where
  "do_terminate e h s =
     (case terminate e h (fst s) of (r, w') \<Rightarrow> (r, (w', snd s @ [Terminate h])))"

definition do_wait :: "'w env \<Rightarrow> nat \<Rightarrow> nat \<Rightarrow> 'w sys \<Rightarrow> exn option \<times> 'w sys" where
  "do_wait e h t s =
     (case wait e h t (fst s) of (r, w') \<Rightarrow> (r, (w', snd s @ [Wait h t])))"

definition do_kill :: "'w env \<Rightarrow> nat \<Rightarrow> 'w sys \<Rightarrow> exn option \<times> 'w sys" where
  "do_kill e h s =
     (case kill e h (fst s) of (r, w') \<Rightarrow> (r, (w', snd s @ [Kill h])))"

definition do_proc_terminate :: "'w env \<Rightarrow> nat \<Rightarrow> 'w sys \<Rightarrow> exn option \<times> 'w sys" where
  "do_proc_terminate e p s =
     (case proc_terminate e p (fst s) of (r, w') \<Rightarrow> (r, (w', snd s @ [ProcTerminate p])))"

definition do_sleep :: "'w env \<Rightarrow> nat \<Rightarrow> 'w sys \<Rightarrow> 'w sys" where
  "do_sleep e t s = (sleep e t (fst s), snd s @ [Sleep t])"

section \<open>Aria2Controller\<close>

record controller =
  rpc_secret :: string
  port :: int
  config_path :: "string option"
  aria2_process :: "nat option"
  aria2_executable :: "string option"
  aria2_running :: bool

subsection \<open>\<^verbatim>\<open>is_aria2_running\<close> (lines 139-154)\<close>

fun port_listening :: "int \<Rightarrow> conn list \<Rightarrow> bool" where
  "port_listening p [] = False"
| "port_listening p (c # cs) =
     (if laddr_port c = p \<and> status c = ''LISTEN'' then True else port_listening p cs)"

definition is_aria2c :: "string option \<Rightarrow> bool" where
  "is_aria2c n = (n = Some ''aria2c'' \<or> n = Some ''aria2c.exe'')"

fun scan_procs :: "proc_info list \<Rightarrow> exn option \<Rightarrow> exn + bool" where
  "scan_procs [] None = Inr False"
| "scan_procs [] (Some x) = Inl x"
| "scan_procs (p # ps) fin = (if is_aria2c (name p) then Inr True else scan_procs ps fin)"

definition check_procs :: "'w env \<Rightarrow> 'w \<Rightarrow> exn + bool" where
  "check_procs e w = scan_procs (fst (process_iter e w)) (snd (process_iter e w))"

definition is_aria2_running :: "'w env \<Rightarrow> controller \<Rightarrow> 'w \<Rightarrow> exn + bool" where
  "is_aria2_running e c w =
     (case net_connections e w of
        Inl x \<Rightarrow>
          if cls x = AccessDenied \<or> cls x = NoSuchProcess then check_procs e w else Inl x
      | Inr cs \<Rightarrow>
          if port_listening (port c) cs then Inr True else check_procs e w)"

subsection \<open>\<^verbatim>\<open>start_aria2\<close> (lines 54-104)\<close>

definition digit_char :: "nat \<Rightarrow> char" where
  "digit_char d = ''0123456789'' ! d"

fun str_nat :: "nat \<Rightarrow> string" where
  "str_nat n = (if n < 10 then [digit_char n] else str_nat (n div 10) @ [digit_char (n mod 10)])"

definition str_int :: "int \<Rightarrow> string" where
  "str_int i = (if i < 0 then CHR ''-'' # str_nat (nat (- i)) else str_nat (nat i))"

definition is_windows :: "'w env \<Rightarrow> bool" where
  "is_windows e = (platform_system e = ''Windows'')"

text \<open>
  The command list of lines 63-75. The executable is passed in by \<open>start_aria2\<close>, which
  has checked that it is a non-empty string.
\<close>

definition build_cmd :: "'w env \<Rightarrow> controller \<Rightarrow> string \<Rightarrow> 'w \<Rightarrow> string list" where
  "build_cmd e c exe w =
     [ exe,
       ''--enable-rpc'',
       ''--rpc-listen-port='' @ str_int (port c),
       ''--rpc-secret='' @ rpc_secret c,
       ''--rpc-allow-origin-all'',
       ''--rpc-listen-all=true'',
       (if \<not> is_windows e then ''--daemon=true'' else []) ]
     @ (case config_path c of
          None \<Rightarrow> []
        | Some p \<Rightarrow> if p \<noteq> [] \<and> path_exists e w p then [''--conf-path='' @ p] else [])"

definition popen_mode_of :: "'w env \<Rightarrow> popen_mode" where
  "popen_mode_of e = (if is_windows e then WindowsDetached else PosixNewSession)"

text \<open>The \<^verbatim>\<open>try\<close> block of lines 77-104: every exception becomes a failure result.\<close>

definition spawn_and_probe ::
  "'w env \<Rightarrow> controller \<Rightarrow> string \<Rightarrow> 'w sys \<Rightarrow> (exn + bool \<times> string) \<times> controller \<times> 'w sys" where
  "spawn_and_probe e c exe s =
     (case do_popen e (build_cmd e c exe (fst s)) (popen_mode_of e) s of
        (Inl x, s1) \<Rightarrow> (Inr (False, ''Error starting Aria2: '' @ msg x), c, s1)
      | (Inr h, s1) \<Rightarrow>
          (let c1 = c\<lparr>aria2_process := Some h\<rparr>; s2 = do_sleep e 2 s1 in
           case is_aria2_running e c1 (fst s2) of
             Inl x \<Rightarrow> (Inr (False, ''Error starting Aria2: '' @ msg x), c1, s2)
           | Inr True \<Rightarrow>
               (Inr (True, ''Aria2 RPC service started successfully''),
                c1\<lparr>aria2_running := True\<rparr>, s2)
           | Inr False \<Rightarrow> (Inr (False, ''Failed to start Aria2 RPC service''), c1, s2)))"

definition start_aria2 ::
  "'w env \<Rightarrow> controller \<Rightarrow> 'w sys \<Rightarrow> (exn + bool \<times> string) \<times> controller \<times> 'w sys" where
  "start_aria2 e c s =
     (case aria2_executable c of
        None \<Rightarrow> (Inr (False, ''Aria2 executable not found''), c, s)
      | Some exe \<Rightarrow>
          if exe = [] then (Inr (False, ''Aria2 executable not found''), c, s)
          else
            (case is_aria2_running e c (fst s) of
               Inl x \<Rightarrow> (Inl x, c, s)
             | Inr True \<Rightarrow> (Inr (True, ''Aria2 RPC service is already running''), c, s)
             | Inr False \<Rightarrow> spawn_and_probe e c exe s))"

subsection \<open>\<^verbatim>\<open>stop_aria2\<close> (lines 106-137)\<close>

definition terminate_owned :: "'w env \<Rightarrow> controller \<Rightarrow> 'w sys \<Rightarrow> exn option \<times> 'w sys" where
  "terminate_owned e c s =
     (case aria2_process c of
        None \<Rightarrow> (None, s)
      | Some h \<Rightarrow>
          if poll e h (fst s) \<noteq> None then (None, s)
          else
            (case do_terminate e h s of
               (Some x, s1) \<Rightarrow> (Some x, s1)
             | (None, s1) \<Rightarrow>
                 (case do_wait e h 5 s1 of
                    (None, s2) \<Rightarrow> (None, s2)
                  | (Some x, s2) \<Rightarrow>
                      if cls x = TimeoutExpired then do_kill e h s2 else (Some x, s2))))"

fun terminate_all :: "'w env \<Rightarrow> proc_info list \<Rightarrow> exn option \<Rightarrow> 'w sys \<Rightarrow> exn option \<times> 'w sys" where
  "terminate_all e [] fin s = (fin, s)"
| "terminate_all e (p # ps) fin s =
     (if is_aria2c (name p) then
        (case do_proc_terminate e (pid p) s of
           (Some x, s1) \<Rightarrow>
             if cls x = NoSuchProcess then terminate_all e ps fin s1 else (Some x, s1)
         | (None, s1) \<Rightarrow> terminate_all e ps fin s1)
      else terminate_all e ps fin s)"

definition sweep :: "'w env \<Rightarrow> 'w sys \<Rightarrow> exn option \<times> 'w sys" where
  "sweep e s = terminate_all e (fst (process_iter e (fst s))) (snd (process_iter e (fst s))) s"

definition stop_error :: "exn \<Rightarrow> exn + bool \<times> string" where
  "stop_error x = Inr (False, ''Error stopping Aria2: '' @ msg x)"

definition stop_aria2 ::
  "'w env \<Rightarrow> controller \<Rightarrow> 'w sys \<Rightarrow> (exn + bool \<times> string) \<times> controller \<times> 'w sys" where
  "stop_aria2 e c s =
     (case is_aria2_running e c (fst s) of
        Inl x \<Rightarrow> (Inl x, c, s)
      | Inr False \<Rightarrow> (Inr (True, ''Aria2 RPC service is not running''), c, s)
      | Inr True \<Rightarrow>
          (case terminate_owned e c s of
             (Some x, s1) \<Rightarrow> (stop_error x, c, s1)
           | (None, s1) \<Rightarrow>
               (case sweep e s1 of
                  (Some x, s2) \<Rightarrow> (stop_error x, c, s2)
                | (None, s2) \<Rightarrow>
                    (let s3 = do_sleep e 1 s2 in
                     case is_aria2_running e c (fst s3) of
                       Inl x \<Rightarrow> (stop_error x, c, s3)
                     | Inr False \<Rightarrow>
                         (Inr (True, ''Aria2 RPC service stopped successfully''),
                          c\<lparr>aria2_running := False\<rparr>, s3)
                     | Inr True \<Rightarrow> (Inr (False, ''Failed to stop Aria2 RPC service''), c, s3)))))"

subsection \<open>\<^verbatim>\<open>_find_aria2_executable\<close> (lines 23-52)\<close>

text \<open>\<^verbatim>\<open>str.split(sep)\<close> for a one-character separator: \<^verbatim>\<open>"".split(":")\<close> is \<^verbatim>\<open>[""]\<close>.\<close>

fun split_on :: "char \<Rightarrow> string \<Rightarrow> string list" where
  "split_on sep [] = [[]]"
| "split_on sep (c # cs) =
     (if c = sep then [] # split_on sep cs
      else (case split_on sep cs of
              [] \<Rightarrow> [[c]]
            | r # rs \<Rightarrow> (c # r) # rs))"

definition bs :: char where
  "bs = CHR 0x5C"

definition well_known_paths :: "'w env \<Rightarrow> string list" where
  "well_known_paths e =
     (if is_windows e then
        [ ''C:'' @ [bs] @ ''Program Files'' @ [bs] @ ''Aria2'' @ [bs] @ ''aria2c.exe'',
          ''C:'' @ [bs] @ ''aria2'' @ [bs] @ ''aria2c.exe'',
          expanduser e (''~'' @ [bs] @ ''AppData'' @ [bs] @ ''Local'' @ [bs] @ ''Programs''
                          @ [bs] @ ''aria2'' @ [bs] @ ''aria2c.exe'') ]
      else
        [ ''/usr/bin/aria2c'', ''/usr/local/bin/aria2c'', ''/opt/homebrew/bin/aria2c'' ])"

fun append_path_dirs :: "'w env \<Rightarrow> string \<Rightarrow> string list \<Rightarrow> string list \<Rightarrow> string list" where
  "append_path_dirs e exe possible [] = possible"
| "append_path_dirs e exe possible (d # ds) =
     append_path_dirs e exe (possible @ [path_join e d exe]) ds"

text \<open>\<^verbatim>\<open>os.environ["PATH"]\<close> raises \<^verbatim>\<open>KeyError\<close> when the variable is not set.\<close>

definition possible_paths :: "'w env \<Rightarrow> exn + string list" where
  "possible_paths e =
     (case environ_PATH e of
        None \<Rightarrow> Inl (Exn KeyError ([CHR 0x27] @ ''PATH'' @ [CHR 0x27]))
      | Some pv \<Rightarrow>
          if is_windows e
          then Inr (append_path_dirs e ''aria2c.exe'' (well_known_paths e) (split_on CHR '';'' pv))
          else Inr (append_path_dirs e ''aria2c'' (well_known_paths e) (split_on CHR '':'' pv)))"

fun first_existing :: "(string \<Rightarrow> bool) \<Rightarrow> string list \<Rightarrow> string option" where
  "first_existing ex [] = None"
| "first_existing ex (p # ps) = (if ex p then Some p else first_existing ex ps)"

definition find_aria2_executable :: "'w env \<Rightarrow> 'w \<Rightarrow> exn + string option" where
  "find_aria2_executable e w =
     (case possible_paths e of
        Inl x \<Rightarrow> Inl x
      | Inr ps \<Rightarrow> Inr (first_existing (path_exists e w) ps))"

section \<open>Aria2DownloaderApp\<close>

text \<open>
  Strings hold code points below 256. \<^verbatim>\<open>str.strip()\<close> removes the characters for which
  \<^verbatim>\<open>str.isspace\<close> holds; \<^verbatim>\<open>int()\<close> skips a smaller set of ASCII characters (it keeps
  the separators 28 to 31), takes one sign, and then digits with single underscores
  between them; \<^verbatim>\<open>str.splitlines()\<close> breaks at the line boundaries listed below and
  treats a carriage return followed by a line feed as one boundary.
\<close>

definition py_isspace :: "char \<Rightarrow> bool" where
  "py_isspace ch = ((of_char ch :: nat) \<in> {9, 10, 11, 12, 13, 28, 29, 30, 31, 32, 133, 160})"

definition strip :: "string \<Rightarrow> string" where
  "strip s = rev (dropWhile py_isspace (rev (dropWhile py_isspace s)))"

definition int_space :: "char \<Rightarrow> bool" where
  "int_space ch = ((of_char ch :: nat) \<in> {9, 10, 11, 12, 13, 32, 133, 160})"

definition is_digit :: "char \<Rightarrow> bool" where
  "is_digit ch = (48 \<le> (of_char ch :: nat) \<and> (of_char ch :: nat) \<le> 57)"

fun digits_ok :: "string \<Rightarrow> bool" where
  "digits_ok [] = False"
| "digits_ok [ch] = is_digit ch"
| "digits_ok (ch # d # cs) =
     (if is_digit ch then digits_ok (d # cs)
      else ch = CHR ''_'' \<and> is_digit d \<and> digits_ok (d # cs))"

fun nat_of_digits :: "nat \<Rightarrow> string \<Rightarrow> nat" where
  "nat_of_digits acc [] = acc"
| "nat_of_digits acc (ch # cs) =
     (if ch = CHR ''_'' then nat_of_digits acc cs
      else nat_of_digits (10 * acc + ((of_char ch :: nat) - 48)) cs)"

definition parse_unsigned :: "string \<Rightarrow> exn + nat" where
  "parse_unsigned body =
     (case body of
        [] \<Rightarrow> Inl (Exn ValueError ''invalid literal for int()'')
      | ch # cs \<Rightarrow>
          if is_digit ch \<and> digits_ok body then Inr (nat_of_digits 0 body)
          else Inl (Exn ValueError ''invalid literal for int()''))"

definition py_int :: "string \<Rightarrow> exn + int" where
  "py_int s =
     (let t = rev (dropWhile int_space (rev (dropWhile int_space s))) in
      case t of
        [] \<Rightarrow> Inl (Exn ValueError ''invalid literal for int()'')
      | ch # cs \<Rightarrow>
          if ch = CHR ''-'' then
            (case parse_unsigned cs of Inl x \<Rightarrow> Inl x | Inr n \<Rightarrow> Inr (- int n))
          else if ch = CHR ''+'' then
            (case parse_unsigned cs of Inl x \<Rightarrow> Inl x | Inr n \<Rightarrow> Inr (int n))
          else
            (case parse_unsigned t of Inl x \<Rightarrow> Inl x | Inr n \<Rightarrow> Inr (int n)))"

definition is_linebreak :: "char \<Rightarrow> bool" where
  "is_linebreak ch = ((of_char ch :: nat) \<in> {10, 11, 12, 13, 28, 29, 30, 133})"

fun splitlines_from :: "string \<Rightarrow> string \<Rightarrow> string list" where
  "splitlines_from acc [] = (if acc = [] then [] else [rev acc])"
| "splitlines_from acc [ch] = (if is_linebreak ch then [rev acc] else [rev (ch # acc)])"
| "splitlines_from acc (ch # d # cs) =
     (if ch = CHR 0x0D \<and> d = CHR 0x0A then rev acc # splitlines_from [] cs
      else if is_linebreak ch then rev acc # splitlines_from [] (d # cs)
      else splitlines_from (ch # acc) (d # cs))"

definition splitlines :: "string \<Rightarrow> string list" where
  "splitlines s = splitlines_from [] s"

definition startswith :: "string \<Rightarrow> string \<Rightarrow> bool" where
  "startswith s pre = (take (length pre) s = pre)"

definition endswith :: "string \<Rightarrow> string \<Rightarrow> bool" where
  "endswith s suf = (length suf \<le> length s \<and> drop (length s - length suf) s = suf)"

text \<open>
  The lines written to the status box. The source's texts are Chinese; each constructor
  stands for one of them, with the interpolated values as arguments.
\<close>

datatype log_line =
    FromController string
  | Connected
  | TaskAdded string
  | TaskAddFailed string string
  | ServiceRunning
  | ServiceNotRunning

text \<open>
  The fields of the application object that the modelled methods read or write. The
  \<^verbatim>\<open>StringVar\<close>s and the URL box hold what the user typed; a tree view holds its rows in
  order, one row per download (the tuple of its six displayed values).
\<close>

record app =
  controller :: controller
  aria2_client :: "client option"
  aria2_path_var :: string
  rpc_secret_var :: string
  rpc_port_var :: string
  url_text :: string
  download_path_var :: string
  threads_var :: string
  speed_limit_var :: string
  download_tree :: "download list"
  active_tree :: "download list"
  status_text :: "log_line list"
  start_button_enabled :: bool
  stop_button_enabled :: bool
  status_thread_alive :: bool

definition log_status :: "log_line \<Rightarrow> app \<Rightarrow> app" where
  "log_status m a = a\<lparr>status_text := status_text a @ [m]\<rparr>"

definition connect_to_aria2 :: "app \<Rightarrow> app" where
  "connect_to_aria2 a =
     log_status Connected
       (a\<lparr>aria2_client := Some (port (controller a), rpc_secret (controller a))\<rparr>)"

subsection \<open>\<^verbatim>\<open>start_aria2_service\<close> (lines 424-442)\<close>

definition start_aria2_service :: "'w env \<Rightarrow> app \<Rightarrow> 'w sys \<Rightarrow> exn option \<times> app \<times> 'w sys" where
  "start_aria2_service e a s =
     (let c1 = (controller a)\<lparr>rpc_secret := rpc_secret_var a,
                               aria2_executable := Some (aria2_path_var a)\<rparr> in
      case py_int (rpc_port_var a) of
        Inl x \<Rightarrow> (Some x, a\<lparr>controller := c1\<rparr>, s)
      | Inr p \<Rightarrow>
          (case start_aria2 e (c1\<lparr>port := p\<rparr>) s of
             (Inl x, c2, s1) \<Rightarrow> (Some x, a\<lparr>controller := c2\<rparr>, s1)
           | (Inr (success, message), c2, s1) \<Rightarrow>
               (let a1 = log_status (FromController message) (a\<lparr>controller := c2\<rparr>) in
                if success then
                  (None,
                   (connect_to_aria2 (a1\<lparr>start_button_enabled := False,
                                          stop_button_enabled := True\<rparr>))
                     \<lparr>status_thread_alive := True\<rparr>,
                   s1)
                else (None, a1, s1))))"

subsection \<open>\<^verbatim>\<open>start_download\<close> (lines 477-515)\<close>

definition add_to_download_list :: "download \<Rightarrow> app \<Rightarrow> app" where
  "add_to_download_list d a = a\<lparr>download_tree := download_tree a @ [d]\<rparr>"

definition rpc_add :: "'w env \<Rightarrow> client \<Rightarrow> options \<Rightarrow> string \<Rightarrow> 'w sys \<Rightarrow> (exn + download) \<times> 'w sys" where
  "rpc_add e cl opts url s =
     (if startswith url ''magnet:'' then
        (case add_magnet e cl url opts (fst s) of
           (r, w') \<Rightarrow> (r, (w', snd s @ [AddMagnet url opts])))
      else if endswith url ''.torrent'' then
        (case add_torrent e cl url opts (fst s) of
           (r, w') \<Rightarrow> (r, (w', snd s @ [AddTorrent url opts])))
      else
        (case add_uris e cl [url] opts (fst s) of
           (r, w') \<Rightarrow> (r, (w', snd s @ [AddUris [url] opts]))))"

fun enqueue_urls :: "'w env \<Rightarrow> client \<Rightarrow> options \<Rightarrow> string list \<Rightarrow> app \<Rightarrow> 'w sys \<Rightarrow> app \<times> 'w sys" where
  "enqueue_urls e cl opts [] a s = (a, s)"
| "enqueue_urls e cl opts (url # urls) a s =
     (if strip url \<noteq> [] then
        (case rpc_add e cl opts url s of
           (Inl x, s1) \<Rightarrow>
             enqueue_urls e cl opts urls (log_status (TaskAddFailed url (msg x)) a) s1
         | (Inr d, s1) \<Rightarrow>
             enqueue_urls e cl opts urls (log_status (TaskAdded url) (add_to_download_list d a)) s1)
      else enqueue_urls e cl opts urls a s)"

definition base_options :: "app \<Rightarrow> options" where
  "base_options a =
     [ (''dir'', download_path_var a),
       (''split'', threads_var a),
       (''max-connection-per-server'', threads_var a) ]"

definition with_speed_limit :: "app \<Rightarrow> exn + options" where
  "with_speed_limit a =
     (if speed_limit_var a = [] then Inr (base_options a)
      else
        (case py_int (speed_limit_var a) of
           Inl x \<Rightarrow> Inl x
         | Inr n \<Rightarrow>
             if n > 0
             then Inr (base_options a @ [(''max-download-limit'', speed_limit_var a @ ''K'')])
             else Inr (base_options a)))"

definition ensure_dir :: "'w env \<Rightarrow> string \<Rightarrow> 'w sys \<Rightarrow> exn option \<times> 'w sys" where
  "ensure_dir e p s =
     (if \<not> path_exists e (fst s) p then
        (case makedirs e p (fst s) of (r, w') \<Rightarrow> (r, (w', snd s @ [Makedirs p])))
      else (None, s))"

definition start_download :: "'w env \<Rightarrow> app \<Rightarrow> 'w sys \<Rightarrow> exn option \<times> app \<times> 'w sys" where
  "start_download e a s =
     (case aria2_client a of
        None \<Rightarrow> (None, a, (fst s, snd s @ [ShowError]))
      | Some cl \<Rightarrow>
          (let urls = splitlines (strip (url_text a)) in
           if urls = [] \<or> urls = [[]] then (None, a, (fst s, snd s @ [ShowWarning]))
           else
             (case ensure_dir e (download_path_var a) s of
                (Some x, s1) \<Rightarrow> (Some x, a, s1)
              | (None, s1) \<Rightarrow>
                  (case with_speed_limit a of
                     Inl x \<Rightarrow> (Some x, a, s1)
                   | Inr opts \<Rightarrow>
                       (case enqueue_urls e cl opts urls a s1 of
                          (a', s2) \<Rightarrow> (None, a', s2))))))"

subsection \<open>\<^verbatim>\<open>update_status\<close> (lines 568-586)\<close>

fun insert_rows :: "download list \<Rightarrow> app \<Rightarrow> app" where
  "insert_rows [] a = a"
| "insert_rows (d # ds) a = insert_rows ds (a\<lparr>active_tree := active_tree a @ [d]\<rparr>)"

definition update_status :: "'w env \<Rightarrow> app \<Rightarrow> 'w \<Rightarrow> exn option \<times> app" where
  "update_status e a w =
     (case is_aria2_running e (controller a) w of
        Inl x \<Rightarrow> (Some x, a)
      | Inr r \<Rightarrow>
          (let a1 = log_status (if r then ServiceRunning else ServiceNotRunning) a in
           case aria2_client a1 of
             None \<Rightarrow> (None, a1)
           | Some cl \<Rightarrow>
               (let a2 = a1\<lparr>active_tree := []\<rparr> in
                case get_downloads e cl w of
                  Inl x \<Rightarrow> (Some x, a2)
                | Inr ds \<Rightarrow> (None, insert_rows ds a2))))"

section \<open>A simulated operating system\<close>

text \<open>
  A small concrete world, used to run the model on explicit scenarios: a socket table,
  a process table, a set of files, and an RPC queue. A spawned daemon appears in the
  process table as \<^verbatim>\<open>aria2c\<close>; a process in \<open>w_hung\<close> does not exit within a wait; a
  process in \<open>w_protected\<close> refuses termination with \<^verbatim>\<open>AccessDenied\<close>.
\<close>

record sim =
  w_listening :: "conn list"
  w_conns_denied :: bool
  w_table :: "proc_info list"
  w_table_error :: "exn option"
  w_files :: "string list"
  w_starting :: "conn list"
  w_protected :: "nat list"
  w_hung :: "nat list"
  w_rpc_up :: bool
  w_queue :: "download list"

definition sim_download :: "string \<Rightarrow> download" where
  "sim_download url =
     \<lparr>gid = ''1'', dl_name = url, dl_status = ''active'', progress_text = ''0.0%'',
      speed_text = ''0.0 KB/s'', size_text = ''0.0 MB''\<rparr>"

definition sim_add :: "string \<Rightarrow> sim \<Rightarrow> (exn + download) \<times> sim" where
  "sim_add url w =
     (if w_rpc_up w then (Inr (sim_download url), w\<lparr>w_queue := w_queue w @ [sim_download url]\<rparr>)
      else (Inl (Exn OSError ''connection refused''), w))"

definition sim_exit :: "nat \<Rightarrow> sim \<Rightarrow> sim" where
  "sim_exit p w = w\<lparr>w_table := filter (\<lambda>q. pid q \<noteq> p) (w_table w)\<rparr>"

definition sim_env :: "string \<Rightarrow> string option \<Rightarrow> sim env" where
  "sim_env plat pv =
     \<lparr> platform_system = plat,
       environ_PATH = pv,
       expanduser = (\<lambda>p. p),
       path_join = (\<lambda>d f. d @ ''/'' @ f),
       path_exists = (\<lambda>w p. p \<in> set (w_files w)),
       net_connections =
         (\<lambda>w. if w_conns_denied w then Inl (Exn AccessDenied ''access denied'')
              else Inr (w_listening w)),
       process_iter = (\<lambda>w. (w_table w, w_table_error w)),
       popen =
         (\<lambda>cmd m w. (Inr 4242,
            w\<lparr>w_table := w_table w @ [\<lparr>pid = 4242, name = Some ''aria2c''\<rparr>]\<rparr>)),
       poll = (\<lambda>h w. if h \<in> pid ` set (w_table w) then None else Some 0),
       terminate = (\<lambda>h w. (None, w)),
       wait =
         (\<lambda>h t w. if h \<in> set (w_hung w) then (Some (Exn TimeoutExpired ''timed out''), w)
                  else (None, sim_exit h w)),
       kill = (\<lambda>h w. (None, sim_exit h w)),
       proc_terminate =
         (\<lambda>p w. if p \<in> set (w_protected w) then (Some (Exn AccessDenied ''access denied''), w)
                else (None, sim_exit p w)),
       sleep = (\<lambda>t w. w\<lparr>w_listening := w_listening w @ w_starting w, w_starting := []\<rparr>),
       makedirs = (\<lambda>p w. (None, w\<lparr>w_files := w_files w @ [p]\<rparr>)),
       get_downloads =
         (\<lambda>cl w. if w_rpc_up w then Inr (w_queue w) else Inl (Exn OSError ''connection refused'')),
       add_magnet = (\<lambda>cl url opts. sim_add url),
       add_torrent = (\<lambda>cl url opts. sim_add url),
       add_uris = (\<lambda>cl urls opts. sim_add (concat urls)) \<rparr>"

definition idle :: sim where
  "idle =
     \<lparr> w_listening = [], w_conns_denied = False, w_table = [], w_table_error = None,
       w_files = [''/usr/bin/aria2c''], w_starting = [], w_protected = [], w_hung = [],
       w_rpc_up = False, w_queue = [] \<rparr>"

definition ctl0 :: controller where
  "ctl0 =
     \<lparr> rpc_secret = ''my_secret'', port = 6800, config_path = None, aria2_process = None,
       aria2_executable = Some ''/usr/bin/aria2c'', aria2_running = False \<rparr>"

section \<open>Notions used in the statements\<close>

text \<open>The commands of the \<^verbatim>\<open>Popen\<close> events of a trace, in order.\<close>

fun spawned :: "event list \<Rightarrow> string list list" where
  "spawned [] = []"
| "spawned (Popen cmd m # es) = cmd # spawned es"
| "spawned (ev # es) = spawned es"


text \<open>
  The candidates of the search-path scan: every directory of \<^verbatim>\<open>PATH\<close>, in order, joined
  with the executable name of the platform.
\<close>

definition search_path_candidates :: "'w env \<Rightarrow> string \<Rightarrow> string list" where
  "search_path_candidates e pv =
     (if is_windows e then map (\<lambda>d. path_join e d ''aria2c.exe'') (split_on CHR '';'' pv)
      else map (\<lambda>d. path_join e d ''aria2c'') (split_on CHR '':'' pv))"

text \<open>The RPC event that \<open>rpc_add\<close> records for a link.\<close>

definition routed :: "options \<Rightarrow> string \<Rightarrow> event" where
  "routed opts url =
     (if startswith url ''magnet:'' then AddMagnet url opts
      else if endswith url ''.torrent'' then AddTorrent url opts
      else AddUris [url] opts)"




section \<open>Scenarios\<close>

definition both_denied :: sim where
  "both_denied =
     idle\<lparr>w_conns_denied := True, w_table_error := Some (Exn AccessDenied ''access denied'')\<rparr>"

definition running :: sim where
  "running = idle\<lparr>w_table := [\<lparr>pid = 4242, name = Some ''aria2c''\<rparr>]\<rparr>"


definition posix_cmd :: "string list" where
  "posix_cmd =
     [''/usr/bin/aria2c'', ''--enable-rpc'', ''--rpc-listen-port=6800'',
      ''--rpc-secret=my_secret'', ''--rpc-allow-origin-all'', ''--rpc-listen-all=true'',
      ''--daemon=true'']"


definition app0 :: app where
  "app0 =
     \<lparr> controller = ctl0, aria2_client = Some (6800, ''my_secret''),
       aria2_path_var = ''/usr/bin/aria2c'', rpc_secret_var = ''my_secret'',
       rpc_port_var = ''6800'', url_text = [], download_path_var = ''/tmp/dl'',
       threads_var = ''8'', speed_limit_var = ''0'', download_tree = [],
       active_tree = [sim_download ''http://x/y.iso''], status_text = [],
       start_button_enabled = False, stop_button_enabled = True,
       status_thread_alive = True \<rparr>"

definition serving :: sim where
  "serving = running\<lparr>w_rpc_up := True, w_queue := [sim_download ''http://x/z.iso'']\<rparr>"




definition two_installs :: sim where
  "two_installs = idle\<lparr>w_files := [''/opt/bin/aria2c'', ''/usr/local/bin/aria2c'']\<rparr>"

definition ctl_conf :: controller where
  "ctl_conf = ctl0\<lparr>config_path := Some ''/etc/aria2.conf''\<rparr>"

definition windows_cmd :: "string list" where
  "windows_cmd =
     [''/usr/bin/aria2c'', ''--enable-rpc'', ''--rpc-listen-port=6800'',
      ''--rpc-secret=my_secret'', ''--rpc-allow-origin-all'', ''--rpc-listen-all=true'', []]"

definition app_links :: app where
  "app_links =
     app0\<lparr>url_text := ''magnet:?xt=urn:btih:ABC'' @ [CHR 0x0A] @ ''http://x/y.iso'' @ [CHR 0x0A]\<rparr>"

definition dl_options :: options where
  "dl_options = [(''dir'', ''/tmp/dl''), (''split'', ''8''), (''max-connection-per-server'', ''8'')]"

definition app_bad_port :: app where
  "app_bad_port = app0\<lparr>rpc_port_var := ''abc''\<rparr>"

definition app_bad_limit :: app where
  "app_bad_limit = app_links\<lparr>speed_limit_var := ''fast'', threads_var := ''many''\<rparr>"

definition bad_literal :: exn where
  "bad_literal = Exn ValueError ''invalid literal for int()''"










definition windows_install :: sim where
  "windows_install = idle\<lparr>w_files := [''D:/tools/aria2c.exe'']\<rparr>"

definition app_three :: app where
  "app_three =
     app0\<lparr>url_text := ''magnet:?xt=urn:btih:ABC'' @ [CHR 0x0A] @ ''http://x/y.iso'' @ [CHR 0x0A]
                          @ ''http://x/y.torrent'' @ [CHR 0x0A]\<rparr>"

definition app_torrent :: app where
  "app_torrent = app0\<lparr>url_text := ''http://x/y.torrent''\<rparr>"

section \<open>Verified properties\<close>

subsection \<open>Stopping a daemon that is not running\<close>

text \<open>
  Claim C4. When the probe reports the daemon not running, \<open>stop_aria2\<close> returns the
  success result with the message "Aria2 RPC service is not running", performs no action
  (the world and the event trace are the ones it was given) and leaves the controller
  unchanged.
\<close>

theorem stop_not_running:
  assumes "is_aria2_running e c (fst s) = Inr False"
  shows "stop_aria2 e c s = (Inr (True, ''Aria2 RPC service is not running''), c, s)"
  using assms by (simp add: stop_aria2_def)

theorem stop_not_running_witness:
  "is_aria2_running (sim_env ''Linux'' None) ctl0 (fst (idle, [])) = Inr False \<and>
   stop_aria2 (sim_env ''Linux'' None) ctl0 (idle, []) =
     (Inr (True, ''Aria2 RPC service is not running''), ctl0, (idle, []))"
proof -
  have h: "is_aria2_running (sim_env ''Linux'' None) ctl0 (fst (idle, [])) = Inr False"
    by (simp add: is_aria2_running_def check_procs_def sim_env_def idle_def ctl0_def)
  show ?thesis using h stop_not_running [OF h] by simp
qed

subsection \<open>Helper facts\<close>

lemmas sim_simps = sim_env_def idle_def ctl0_def sim_exit_def sim_add_def sim_download_def
lemmas probe_simps = is_aria2_running_def check_procs_def is_aria2c_def
lemmas act_simps = do_popen_def do_terminate_def do_wait_def do_kill_def do_proc_terminate_def
  do_sleep_def


lemma probe_port_only: "port c' = port c \<Longrightarrow> is_aria2_running e c' w = is_aria2_running e c w"
  by (simp add: is_aria2_running_def split: sum.splits)




subsection \<open>Starting a daemon that is already running\<close>





subsection \<open>The health probe\<close>

text \<open>
  What the probe does in general: a listening socket on the port, or a process named
  like the daemon, gives \<^verbatim>\<open>True\<close>; a caught error of the socket enumeration hands over
  to the process check; \<^verbatim>\<open>False\<close> is returned only when both checks found nothing and
  the process enumeration ended without raising.
\<close>

lemma port_listening_iff:
  "port_listening p cs \<longleftrightarrow> (\<exists>c \<in> set cs. laddr_port c = p \<and> status c = ''LISTEN'')"
  by (induction cs) auto

lemma scan_procs_True_iff:
  "scan_procs ps fin = Inr True \<longleftrightarrow> (\<exists>p \<in> set ps. is_aria2c (name p))"
  by (induction ps fin rule: scan_procs.induct) auto

lemma scan_procs_False_iff:
  "scan_procs ps fin = Inr False \<longleftrightarrow> (\<forall>p \<in> set ps. \<not> is_aria2c (name p)) \<and> fin = None"
  by (induction ps fin rule: scan_procs.induct) auto

lemma scan_procs_raises_iff:
  "scan_procs ps fin = Inl x \<longleftrightarrow> (\<forall>p \<in> set ps. \<not> is_aria2c (name p)) \<and> fin = Some x"
  by (induction ps fin rule: scan_procs.induct) auto

lemma probe_true_on_port:
  "net_connections e w = Inr cs \<Longrightarrow> port_listening (port c) cs \<Longrightarrow>
     is_aria2_running e c w = Inr True"
  by (simp add: is_aria2_running_def)

lemma probe_socket_error_swallowed:
  "net_connections e w = Inl x \<Longrightarrow> cls x = AccessDenied \<or> cls x = NoSuchProcess \<Longrightarrow>
     is_aria2_running e c w = check_procs e w"
  by (auto simp: is_aria2_running_def)

lemma probe_true_on_name:
  assumes "\<exists>p \<in> set (fst (process_iter e w)). is_aria2c (name p)"
    and "\<forall>x. net_connections e w = Inl x \<longrightarrow> cls x = AccessDenied \<or> cls x = NoSuchProcess"
  shows "is_aria2_running e c w = Inr True"
  using assms
  by (auto simp: is_aria2_running_def check_procs_def scan_procs_True_iff split: sum.splits)

lemma probe_false_only_if:
  assumes "is_aria2_running e c w = Inr False"
  shows "(\<forall>p \<in> set (fst (process_iter e w)). \<not> is_aria2c (name p)) \<and>
         snd (process_iter e w) = None \<and>
         (\<forall>cs. net_connections e w = Inr cs \<longrightarrow> \<not> port_listening (port c) cs) \<and>
         (\<forall>x. net_connections e w = Inl x \<longrightarrow> cls x = AccessDenied \<or> cls x = NoSuchProcess)"
  using assms
  by (auto simp: is_aria2_running_def check_procs_def scan_procs_False_iff
           split: sum.splits if_splits)

lemma probe_process_error_raised:
  assumes "\<forall>p \<in> set (fst (process_iter e w)). \<not> is_aria2c (name p)"
    and "snd (process_iter e w) = Some y"
    and "net_connections e w = Inl x" "cls x = AccessDenied"
  shows "is_aria2_running e c w = Inl y"
  using assms
  by (simp add: is_aria2_running_def check_procs_def scan_procs_raises_iff)

text \<open>
  Claim C2. The probe swallows a permission error of the socket enumeration, but not one
  of the process enumeration: when \<^verbatim>\<open>net_connections\<close> raises \<^verbatim>\<open>AccessDenied\<close> and
  \<^verbatim>\<open>process_iter\<close> raises \<^verbatim>\<open>AccessDenied\<close> too, \<open>is_aria2_running\<close> raises instead of
  returning \<^verbatim>\<open>False\<close>.
\<close>

theorem probe_process_error_propagates:
  "is_aria2_running (sim_env ''Linux'' None) ctl0 both_denied = Inl (Exn AccessDenied ''access denied'')"
  by (simp add: probe_simps sim_simps both_denied_def)

subsection \<open>The command line of the spawned daemon\<close>

lemma start_spawns:
  assumes "aria2_executable c = Some exe" "exe \<noteq> []" "is_aria2_running e c (fst s) = Inr False"
  shows "\<exists>rest. snd (snd (snd (start_aria2 e c s))) =
            snd s @ Popen (build_cmd e c exe (fst s)) (popen_mode_of e) # rest \<and>
          spawned rest = []"
proof -
  obtain r1 s1 where p: "do_popen e (build_cmd e c exe (fst s)) (popen_mode_of e) s = (r1, s1)"
    by (cases "do_popen e (build_cmd e c exe (fst s)) (popen_mode_of e) s")
  then have tr: "snd s1 = snd s @ [Popen (build_cmd e c exe (fst s)) (popen_mode_of e)]"
    by (auto simp: do_popen_def split: prod.splits)
  have st: "start_aria2 e c s = spawn_and_probe e c exe s"
    using assms by (simp add: start_aria2_def)
  show ?thesis
  proof (cases r1)
    case (Inl x)
    with p have "snd (snd (spawn_and_probe e c exe s)) = s1"
      by (simp add: spawn_and_probe_def)
    with tr st show ?thesis by simp
  next
    case (Inr h)
    with p have "snd (snd (spawn_and_probe e c exe s)) = do_sleep e 2 s1"
      by (simp add: spawn_and_probe_def Let_def split: sum.splits bool.splits)
    with tr st have "snd (snd (snd (start_aria2 e c s))) =
        snd s @ Popen (build_cmd e c exe (fst s)) (popen_mode_of e) # [Sleep 2]"
      by (simp add: do_sleep_def)
    then show ?thesis by simp
  qed
qed

text \<open>
  Claim C7, as amended. Whenever \<open>start_aria2\<close> spawns (an executable is set and the probe
  reports the daemon not running), it spawns once, and the arguments after the executable
  are exactly: \<^verbatim>\<open>--enable-rpc\<close>, \<^verbatim>\<open>--rpc-listen-port=<port>\<close>, \<^verbatim>\<open>--rpc-secret=<secret>\<close>,
  \<^verbatim>\<open>--rpc-allow-origin-all\<close>, \<^verbatim>\<open>--rpc-listen-all=true\<close>, then \<^verbatim>\<open>--daemon=true\<close> off Windows
  and the empty string on Windows, and then \<^verbatim>\<open>--conf-path=<path>\<close> exactly when the
  configuration path is set, not empty, and exists on the file system.
\<close>

theorem start_command_line:
  assumes "aria2_executable c = Some exe" "exe \<noteq> []" "is_aria2_running e c (fst s) = Inr False"
  shows "\<exists>rest. snd (snd (snd (start_aria2 e c s))) =
            snd s @ Popen
              (exe #
               [''--enable-rpc'',
                ''--rpc-listen-port='' @ str_int (port c),
                ''--rpc-secret='' @ rpc_secret c,
                ''--rpc-allow-origin-all'',
                ''--rpc-listen-all=true'',
                (if is_windows e then [] else ''--daemon=true'')]
               @ (case config_path c of
                    None \<Rightarrow> []
                  | Some p \<Rightarrow>
                      if p \<noteq> [] \<and> path_exists e (fst s) p then [''--conf-path='' @ p] else []))
              (if is_windows e then WindowsDetached else PosixNewSession) # rest \<and>
          spawned rest = []"
proof -
  have b: "build_cmd e c exe (fst s) =
      exe #
       [''--enable-rpc'',
        ''--rpc-listen-port='' @ str_int (port c),
        ''--rpc-secret='' @ rpc_secret c,
        ''--rpc-allow-origin-all'',
        ''--rpc-listen-all=true'',
        (if is_windows e then [] else ''--daemon=true'')]
       @ (case config_path c of
            None \<Rightarrow> []
          | Some p \<Rightarrow>
              if p \<noteq> [] \<and> path_exists e (fst s) p then [''--conf-path='' @ p] else [])"
    by (cases "is_windows e") (simp_all add: build_cmd_def)
  from start_spawns [OF assms] show ?thesis
    unfolding b popen_mode_of_def .
qed

theorem start_command_line_witness:
  "aria2_executable ctl0 = Some ''/usr/bin/aria2c'' \<and> ''/usr/bin/aria2c'' \<noteq> [] \<and>
   is_aria2_running (sim_env ''Linux'' None) ctl0 (fst (idle, [])) = Inr False \<and>
   (\<exists>rest. snd (snd (snd (start_aria2 (sim_env ''Linux'' None) ctl0 (idle, [])))) =
       Popen posix_cmd PosixNewSession # rest \<and> spawned rest = [])"
proof -
  have h1: "aria2_executable ctl0 = Some ''/usr/bin/aria2c''" by (simp add: ctl0_def)
  have h2: "''/usr/bin/aria2c'' \<noteq> []" by simp
  have h3: "is_aria2_running (sim_env ''Linux'' None) ctl0 (fst (idle, [])) = Inr False"
    by (simp add: probe_simps sim_simps)
  have v: "port ctl0 = 6800" "rpc_secret ctl0 = ''my_secret''" "config_path ctl0 = None"
    "\<not> is_windows (sim_env ''Linux'' None)" "str_int 6800 = ''6800''"
    by (simp_all add: ctl0_def is_windows_def sim_env_def str_int_def digit_char_def)
  from start_command_line [OF h1 h2 h3] h1 h3 v show ?thesis
    by (simp add: posix_cmd_def)
qed

theorem conf_path_missing_counterexample:
  "config_path ctl_conf = Some ''/etc/aria2.conf'' \<and>
   start_aria2 (sim_env ''Linux'' None) ctl_conf (idle, []) =
     (Inr (True, ''Aria2 RPC service started successfully''),
      ctl_conf\<lparr>aria2_process := Some 4242, aria2_running := True\<rparr>,
      (running, [Popen posix_cmd PosixNewSession, Sleep 2]))"
  by (simp add: start_aria2_def spawn_and_probe_def build_cmd_def popen_mode_of_def is_windows_def
        str_int_def digit_char_def probe_simps act_simps sim_simps ctl_conf_def running_def
        posix_cmd_def)

text \<open>
  Claim C10. On Windows, with no configuration path set, whenever \<open>start_aria2\<close> spawns,
  the command list it passes has seven elements and the last one is the empty string.
\<close>

theorem windows_trailing_empty_argument:
  assumes "is_windows e" "config_path c = None"
    and "aria2_executable c = Some exe" "exe \<noteq> []" "is_aria2_running e c (fst s) = Inr False"
  shows "\<exists>cmd rest. snd (snd (snd (start_aria2 e c s))) = snd s @ Popen cmd WindowsDetached # rest \<and>
          cmd = [exe, ''--enable-rpc'', ''--rpc-listen-port='' @ str_int (port c),
                 ''--rpc-secret='' @ rpc_secret c, ''--rpc-allow-origin-all'',
                 ''--rpc-listen-all=true'', []] \<and>
          last cmd = [] \<and> spawned rest = []"
proof -
  let ?cmd = "[exe, ''--enable-rpc'', ''--rpc-listen-port='' @ str_int (port c),
       ''--rpc-secret='' @ rpc_secret c, ''--rpc-allow-origin-all'',
       ''--rpc-listen-all=true'', []]"
  have b: "build_cmd e c exe (fst s) = ?cmd"
    using assms(1,2) by (simp add: build_cmd_def)
  have m: "popen_mode_of e = WindowsDetached"
    using assms(1) by (simp add: popen_mode_of_def)
  from start_spawns [OF assms(3-5)] obtain rest where
    "snd (snd (snd (start_aria2 e c s))) =
       snd s @ Popen (build_cmd e c exe (fst s)) (popen_mode_of e) # rest \<and> spawned rest = []"
    ..
  then have tr: "snd (snd (snd (start_aria2 e c s))) = snd s @ Popen ?cmd WindowsDetached # rest"
    and sp: "spawned rest = []"
    unfolding b m by simp_all
  have l: "last ?cmd = []" by simp
  show ?thesis
    by (rule exI [of _ ?cmd], rule exI [of _ rest]) (intro conjI tr refl l sp)
qed

theorem windows_trailing_empty_argument_witness:
  "is_windows (sim_env ''Windows'' None) \<and> config_path ctl0 = None \<and>
   aria2_executable ctl0 = Some ''/usr/bin/aria2c'' \<and> ''/usr/bin/aria2c'' \<noteq> [] \<and>
   is_aria2_running (sim_env ''Windows'' None) ctl0 (fst (idle, [])) = Inr False \<and>
   (\<exists>rest. snd (snd (snd (start_aria2 (sim_env ''Windows'' None) ctl0 (idle, [])))) =
       Popen windows_cmd WindowsDetached # rest \<and> spawned rest = []) \<and>
   last windows_cmd = []"
proof -
  have h1: "is_windows (sim_env ''Windows'' None)" by (simp add: is_windows_def sim_env_def)
  have h2: "config_path ctl0 = None" by (simp add: ctl0_def)
  have h3: "aria2_executable ctl0 = Some ''/usr/bin/aria2c''" by (simp add: ctl0_def)
  have h4: "''/usr/bin/aria2c'' \<noteq> []" by simp
  have h5: "is_aria2_running (sim_env ''Windows'' None) ctl0 (fst (idle, [])) = Inr False"
    by (simp add: probe_simps sim_simps)
  have v: "port ctl0 = 6800" "rpc_secret ctl0 = ''my_secret''" "str_int 6800 = ''6800''"
    by (simp_all add: ctl0_def str_int_def digit_char_def)
  from windows_trailing_empty_argument [OF h1 h2 h3 h4 h5] h1 h2 h3 h5 v show ?thesis
    by (simp add: windows_cmd_def)
qed

subsection \<open>Numeric fields of the form\<close>

lemma with_speed_limit_threads:
  assumes "with_speed_limit a = Inr opts"
  shows "(''split'', threads_var a) \<in> set opts \<and>
         (''max-connection-per-server'', threads_var a) \<in> set opts"
  using assms
  by (auto simp: with_speed_limit_def base_options_def split: if_splits sum.splits)

lemma with_speed_limit_raises:
  assumes "speed_limit_var a \<noteq> []" "py_int (speed_limit_var a) = Inl x"
  shows "with_speed_limit a = Inl x"
  using assms by (simp add: with_speed_limit_def)

text \<open>
  Claim C9, as amended. The only input that is rejected with a message is an empty URL
  box: \<open>start_download\<close> shows a warning and submits nothing. A port that \<^verbatim>\<open>int()\<close>
  rejects makes \<open>start_aria2_service\<close> raise that \<^verbatim>\<open>ValueError\<close> before the controller is
  asked to start: no event, no change of the world, no line in the status box. A rate
  limit that is not empty and that \<^verbatim>\<open>int()\<close> rejects makes \<open>start_download\<close> raise the
  \<^verbatim>\<open>ValueError\<close> after the directory step and before any link is submitted, leaving the
  application state as it was. The thread count is not validated: whatever was typed is
  passed on as the \<^verbatim>\<open>split\<close> and \<^verbatim>\<open>max-connection-per-server\<close> options.
\<close>

theorem numeric_fields_not_validated:
  "(py_int (rpc_port_var a) = Inl x \<longrightarrow>
      fst (start_aria2_service e a s) = Some x \<and>
      snd (snd (start_aria2_service e a s)) = s \<and>
      status_text (fst (snd (start_aria2_service e a s))) = status_text a) \<and>
   (aria2_client a1 = Some cl1 \<and>
    \<not> (splitlines (strip (url_text a1)) = [] \<or> splitlines (strip (url_text a1)) = [[]]) \<and>
    fst (ensure_dir e (download_path_var a1) s1) = None \<and>
    speed_limit_var a1 \<noteq> [] \<and> py_int (speed_limit_var a1) = Inl x1 \<longrightarrow>
      start_download e a1 s1 = (Some x1, a1, snd (ensure_dir e (download_path_var a1) s1))) \<and>
   (aria2_client a2 = Some cl2 \<and>
    (splitlines (strip (url_text a2)) = [] \<or> splitlines (strip (url_text a2)) = [[]]) \<longrightarrow>
      start_download e a2 s2 = (None, a2, (fst s2, snd s2 @ [ShowWarning]))) \<and>
   (with_speed_limit a3 = Inr opts \<longrightarrow>
      (''split'', threads_var a3) \<in> set opts \<and>
      (''max-connection-per-server'', threads_var a3) \<in> set opts)"
proof (intro conjI impI)
  assume p: "py_int (rpc_port_var a) = Inl x"
  then show "fst (start_aria2_service e a s) = Some x"
    by (simp add: start_aria2_service_def Let_def)
  from p show "snd (snd (start_aria2_service e a s)) = s"
    by (simp add: start_aria2_service_def Let_def)
  from p show "status_text (fst (snd (start_aria2_service e a s))) = status_text a"
    by (simp add: start_aria2_service_def Let_def)
next
  assume h: "aria2_client a1 = Some cl1 \<and>
    \<not> (splitlines (strip (url_text a1)) = [] \<or> splitlines (strip (url_text a1)) = [[]]) \<and>
    fst (ensure_dir e (download_path_var a1) s1) = None \<and>
    speed_limit_var a1 \<noteq> [] \<and> py_int (speed_limit_var a1) = Inl x1"
  then have w: "with_speed_limit a1 = Inl x1" by (simp add: with_speed_limit_raises)
  obtain r d where d: "ensure_dir e (download_path_var a1) s1 = (r, d)"
    by (cases "ensure_dir e (download_path_var a1) s1")
  with h have "r = None" by simp
  with h w d show "start_download e a1 s1 = (Some x1, a1, snd (ensure_dir e (download_path_var a1) s1))"
    by (simp add: start_download_def Let_def)
next
  assume "aria2_client a2 = Some cl2 \<and>
    (splitlines (strip (url_text a2)) = [] \<or> splitlines (strip (url_text a2)) = [[]])"
  then show "start_download e a2 s2 = (None, a2, (fst s2, snd s2 @ [ShowWarning]))"
    by (auto simp: start_download_def Let_def)
next
  assume "with_speed_limit a3 = Inr opts"
  then show "(''split'', threads_var a3) \<in> set opts"
    by (simp add: with_speed_limit_threads)
next
  assume "with_speed_limit a3 = Inr opts"
  then show "(''max-connection-per-server'', threads_var a3) \<in> set opts"
    by (simp add: with_speed_limit_threads)
qed

theorem numeric_fields_not_validated_witness:
  "py_int (rpc_port_var app_bad_port) = Inl bad_literal \<and>
   fst (start_aria2_service (sim_env ''Linux'' None) app_bad_port (idle, [])) = Some bad_literal \<and>
   snd (snd (start_aria2_service (sim_env ''Linux'' None) app_bad_port (idle, []))) = (idle, []) \<and>
   aria2_client app_bad_limit = Some (6800, ''my_secret'') \<and>
   splitlines (strip (url_text app_bad_limit)) = [''magnet:?xt=urn:btih:ABC'', ''http://x/y.iso''] \<and>
   fst (ensure_dir (sim_env ''Linux'' None) (download_path_var app_bad_limit) (serving, [])) = None \<and>
   speed_limit_var app_bad_limit \<noteq> [] \<and>
   py_int (speed_limit_var app_bad_limit) = Inl bad_literal \<and>
   start_download (sim_env ''Linux'' None) app_bad_limit (serving, []) =
     (Some bad_literal, app_bad_limit,
      (serving\<lparr>w_files := [''/usr/bin/aria2c'', ''/tmp/dl'']\<rparr>, [Makedirs ''/tmp/dl''])) \<and>
   aria2_client app0 = Some (6800, ''my_secret'') \<and>
   splitlines (strip (url_text app0)) = [] \<and>
   start_download (sim_env ''Linux'' None) app0 (serving, []) = (None, app0, (serving, [ShowWarning])) \<and>
   with_speed_limit (app0\<lparr>threads_var := ''many''\<rparr>) =
     Inr [(''dir'', ''/tmp/dl''), (''split'', ''many''), (''max-connection-per-server'', ''many'')]"
proof -
  have p: "py_int (rpc_port_var app_bad_port) = Inl bad_literal"
    by (simp add: app_bad_port_def app0_def bad_literal_def py_int_def parse_unsigned_def
          int_space_def is_digit_def)
  have c1: "aria2_client app_bad_limit = Some (6800, ''my_secret'')"
    by (simp add: app_bad_limit_def app_links_def app0_def)
  have u1: "splitlines (strip (url_text app_bad_limit)) =
              [''magnet:?xt=urn:btih:ABC'', ''http://x/y.iso'']"
    by (simp add: splitlines_def strip_def py_isspace_def is_linebreak_def app_bad_limit_def
          app_links_def app0_def)
  have d1: "ensure_dir (sim_env ''Linux'' None) (download_path_var app_bad_limit) (serving, []) =
      (None, (serving\<lparr>w_files := [''/usr/bin/aria2c'', ''/tmp/dl'']\<rparr>, [Makedirs ''/tmp/dl'']))"
    by (simp add: ensure_dir_def sim_simps app_bad_limit_def app_links_def app0_def serving_def
          running_def)
  have l1: "speed_limit_var app_bad_limit \<noteq> []"
    by (simp add: app_bad_limit_def)
  have l2: "py_int (speed_limit_var app_bad_limit) = Inl bad_literal"
    by (simp add: app_bad_limit_def bad_literal_def py_int_def parse_unsigned_def
          int_space_def is_digit_def)
  have c2: "aria2_client app0 = Some (6800, ''my_secret'')"
    by (simp add: app0_def)
  have u2: "splitlines (strip (url_text app0)) = []"
    by (simp add: splitlines_def strip_def app0_def)
  have w3: "with_speed_limit (app0\<lparr>threads_var := ''many''\<rparr>) =
     Inr [(''dir'', ''/tmp/dl''), (''split'', ''many''), (''max-connection-per-server'', ''many'')]"
    by (simp add: with_speed_limit_def base_options_def py_int_def parse_unsigned_def
          int_space_def is_digit_def app0_def)
  note inst = numeric_fields_not_validated [of app_bad_port bad_literal "sim_env ''Linux'' None"
      "(idle, [])" app_bad_limit "(6800, ''my_secret'')" "(serving, [])" bad_literal
      app0 "(6800, ''my_secret'')" "(serving, [])" "app0\<lparr>threads_var := ''many''\<rparr>"
      "[(''dir'', ''/tmp/dl''), (''split'', ''many''), (''max-connection-per-server'', ''many'')]"]
  from inst p c1 u1 d1 l1 l2 c2 u2 w3 show ?thesis by simp
qed

theorem bad_port_raises_counterexample:
  "rpc_port_var app_bad_port = ''abc'' \<and>
   start_aria2_service (sim_env ''Linux'' None) app_bad_port (idle, []) =
     (Some (Exn ValueError ''invalid literal for int()''), app_bad_port, (idle, []))"
  by (simp add: start_aria2_service_def Let_def py_int_def parse_unsigned_def int_space_def
        is_digit_def app_bad_port_def app0_def ctl0_def)

subsection \<open>A poll cycle and the task list\<close>

lemma insert_rows_eq: "insert_rows ds a = a\<lparr>active_tree := active_tree a @ ds\<rparr>"
  by (induction ds arbitrary: a) simp_all

text \<open>
  What \<open>update_status\<close> does once the probe has answered: with a client connected it
  empties the task list and then asks for the downloads, so the list ends empty when the
  call fails and holds the returned downloads when it succeeds; with no client the list
  is not touched.
\<close>

lemma update_status_cases:
  "(is_aria2_running e (controller a) w = Inr r \<and> aria2_client a = Some cl \<and>
    get_downloads e cl w = Inl x \<longrightarrow>
      fst (update_status e a w) = Some x \<and> active_tree (snd (update_status e a w)) = []) \<and>
   (is_aria2_running e (controller a') w' = Inr r' \<and> aria2_client a' = Some cl' \<and>
    get_downloads e cl' w' = Inr ds \<longrightarrow>
      fst (update_status e a' w') = None \<and> active_tree (snd (update_status e a' w')) = ds) \<and>
   (is_aria2_running e (controller a'') w'' = Inr r'' \<and> aria2_client a'' = None \<longrightarrow>
      fst (update_status e a'' w'') = None \<and>
      active_tree (snd (update_status e a'' w'')) = active_tree a'')"
  by (simp add: update_status_def log_status_def insert_rows_eq Let_def)


text \<open>
  Claim C3. A poll whose listing call fails has to leave the task list as it was. The
  code does not: with one task displayed, a connected client and an unreachable daemon,
  \<open>update_status\<close> ends with an empty task list and the failure of \<^verbatim>\<open>get_downloads\<close>
  leaves the method uncaught.
\<close>

theorem poll_failure_clears_task_list:
  "active_tree app0 = [sim_download ''http://x/y.iso''] \<and>
   update_status (sim_env ''Linux'' None) app0 running =
     (Some (Exn OSError ''connection refused''),
      app0\<lparr>status_text := [ServiceRunning], active_tree := []\<rparr>)"
  by (simp add: update_status_def log_status_def Let_def probe_simps sim_simps app0_def running_def)

subsection \<open>Stopping a daemon through an owned handle\<close>
























subsection \<open>Locating the executable\<close>

lemma append_path_dirs_eq:
  "append_path_dirs e exe possible ds = possible @ map (\<lambda>d. path_join e d exe) ds"
  by (induction ds arbitrary: possible) simp_all

lemma possible_paths_eq:
  "environ_PATH e = Some pv \<Longrightarrow>
     possible_paths e = Inr (well_known_paths e @ search_path_candidates e pv)"
  by (simp add: possible_paths_def search_path_candidates_def append_path_dirs_eq)

lemma first_existing_None: "first_existing ex ps = None \<longleftrightarrow> (\<forall>p \<in> set ps. \<not> ex p)"
  by (induction ps) simp_all

lemma first_existing_Some:
  "first_existing ex ps = Some p \<Longrightarrow>
     \<exists>i < length ps. ps ! i = p \<and> ex p \<and> (\<forall>j < i. \<not> ex (ps ! j))"
proof (induction ps)
  case Nil
  then show ?case by simp
next
  case (Cons q qs)
  show ?case
  proof (cases "ex q")
    case True
    with Cons.prems have "q = p" by simp
    with True show ?thesis by (intro exI [of _ 0]) simp
  next
    case False
    with Cons.prems have "first_existing ex qs = Some p" by simp
    from Cons.IH [OF this] obtain i where
      i: "i < length qs" "qs ! i = p" "ex p" "\<forall>j < i. \<not> ex (qs ! j)" by blast
    have "\<forall>j < Suc i. \<not> ex ((q # qs) ! j)"
    proof (intro allI impI)
      fix j assume "j < Suc i"
      then show "\<not> ex ((q # qs) ! j)" using False i(4) by (cases j) simp_all
    qed
    with i show ?thesis by (intro exI [of _ "Suc i"]) simp
  qed
qed

lemma first_existing_append:
  "first_existing ex (ps @ qs) =
     (case first_existing ex ps of None \<Rightarrow> first_existing ex qs | Some p \<Rightarrow> Some p)"
  by (induction ps) simp_all

text \<open>
  Claim C6, as amended: for every environment in which the search-path variable is set.
  The candidate list is then the three well-known paths of the platform, in the order of
  the source, followed by every directory of the search path, in order, joined with the
  executable name of the platform. Whatever files exist, the locator returns the
  candidate of least index that exists: it returns \<^verbatim>\<open>None\<close> exactly when no candidate
  exists, and if some well-known path exists the result is a well-known path, whatever
  the search path holds.
\<close>

theorem find_aria2_executable_first:
  assumes "environ_PATH e = Some pv"
  shows "possible_paths e = Inr (well_known_paths e @ search_path_candidates e pv) \<and>
    (is_windows e \<longrightarrow>
       well_known_paths e =
         [ ''C:'' @ [CHR 0x5C] @ ''Program Files'' @ [CHR 0x5C] @ ''Aria2'' @ [CHR 0x5C] @ ''aria2c.exe'',
           ''C:'' @ [CHR 0x5C] @ ''aria2'' @ [CHR 0x5C] @ ''aria2c.exe'',
           expanduser e (''~'' @ [CHR 0x5C] @ ''AppData'' @ [CHR 0x5C] @ ''Local'' @ [CHR 0x5C]
                           @ ''Programs'' @ [CHR 0x5C] @ ''aria2'' @ [CHR 0x5C] @ ''aria2c.exe'') ] \<and>
       search_path_candidates e pv =
         map (\<lambda>d. path_join e d ''aria2c.exe'') (split_on CHR '';'' pv)) \<and>
    (\<not> is_windows e \<longrightarrow>
       well_known_paths e =
         [ ''/usr/bin/aria2c'', ''/usr/local/bin/aria2c'', ''/opt/homebrew/bin/aria2c'' ] \<and>
       search_path_candidates e pv =
         map (\<lambda>d. path_join e d ''aria2c'') (split_on CHR '':'' pv)) \<and>
    (\<exists>r. find_aria2_executable e w = Inr r \<and>
       (r = None \<longleftrightarrow>
          (\<forall>p \<in> set (well_known_paths e @ search_path_candidates e pv). \<not> path_exists e w p)) \<and>
       (\<forall>p. r = Some p \<longrightarrow>
          (\<exists>i < length (well_known_paths e @ search_path_candidates e pv).
              (well_known_paths e @ search_path_candidates e pv) ! i = p \<and> path_exists e w p \<and>
              (\<forall>j < i. \<not> path_exists e w ((well_known_paths e @ search_path_candidates e pv) ! j)))) \<and>
       ((\<exists>p \<in> set (well_known_paths e). path_exists e w p) \<longrightarrow>
          (\<exists>p \<in> set (well_known_paths e). r = Some p)))"
proof -
  let ?cs = "well_known_paths e @ search_path_candidates e pv"
  let ?r = "first_existing (path_exists e w) ?cs"
  have pp: "possible_paths e = Inr ?cs" by (rule possible_paths_eq [OF assms])
  then have f: "find_aria2_executable e w = Inr ?r" by (simp add: find_aria2_executable_def)
  have win: "is_windows e \<longrightarrow>
       well_known_paths e =
         [ ''C:'' @ [CHR 0x5C] @ ''Program Files'' @ [CHR 0x5C] @ ''Aria2'' @ [CHR 0x5C] @ ''aria2c.exe'',
           ''C:'' @ [CHR 0x5C] @ ''aria2'' @ [CHR 0x5C] @ ''aria2c.exe'',
           expanduser e (''~'' @ [CHR 0x5C] @ ''AppData'' @ [CHR 0x5C] @ ''Local'' @ [CHR 0x5C]
                           @ ''Programs'' @ [CHR 0x5C] @ ''aria2'' @ [CHR 0x5C] @ ''aria2c.exe'') ] \<and>
       search_path_candidates e pv =
         map (\<lambda>d. path_join e d ''aria2c.exe'') (split_on CHR '';'' pv)"
    by (simp add: well_known_paths_def search_path_candidates_def bs_def)
  have nix: "\<not> is_windows e \<longrightarrow>
       well_known_paths e =
         [ ''/usr/bin/aria2c'', ''/usr/local/bin/aria2c'', ''/opt/homebrew/bin/aria2c'' ] \<and>
       search_path_candidates e pv =
         map (\<lambda>d. path_join e d ''aria2c'') (split_on CHR '':'' pv)"
    by (simp add: well_known_paths_def search_path_candidates_def)
  have n: "?r = None \<longleftrightarrow> (\<forall>p \<in> set ?cs. \<not> path_exists e w p)"
    by (rule first_existing_None)
  have s: "\<forall>p. ?r = Some p \<longrightarrow>
          (\<exists>i < length ?cs. ?cs ! i = p \<and> path_exists e w p \<and>
              (\<forall>j < i. \<not> path_exists e w (?cs ! j)))"
    using first_existing_Some [of "path_exists e w" ?cs] by blast
  have k: "(\<exists>p \<in> set (well_known_paths e). path_exists e w p) \<longrightarrow>
          (\<exists>p \<in> set (well_known_paths e). ?r = Some p)"
  proof
    assume "\<exists>p \<in> set (well_known_paths e). path_exists e w p"
    then have "first_existing (path_exists e w) (well_known_paths e) \<noteq> None"
      by (simp add: first_existing_None)
    then obtain p where p: "first_existing (path_exists e w) (well_known_paths e) = Some p"
      by blast
    from first_existing_Some [OF p] have "p \<in> set (well_known_paths e)" by auto
    moreover from p have "?r = Some p" by (simp add: first_existing_append)
    ultimately show "\<exists>p \<in> set (well_known_paths e). ?r = Some p" by blast
  qed
  from f n s k have ex: "\<exists>r. find_aria2_executable e w = Inr r \<and>
       (r = None \<longleftrightarrow> (\<forall>p \<in> set ?cs. \<not> path_exists e w p)) \<and>
       (\<forall>p. r = Some p \<longrightarrow>
          (\<exists>i < length ?cs. ?cs ! i = p \<and> path_exists e w p \<and>
              (\<forall>j < i. \<not> path_exists e w (?cs ! j)))) \<and>
       ((\<exists>p \<in> set (well_known_paths e). path_exists e w p) \<longrightarrow>
          (\<exists>p \<in> set (well_known_paths e). r = Some p))"
    by (intro exI [of _ ?r] conjI)
  show ?thesis by (intro conjI pp win nix ex)
qed

theorem find_aria2_executable_first_witness:
  "environ_PATH (sim_env ''Linux'' (Some ''/opt/bin:/usr/local/bin'')) = Some ''/opt/bin:/usr/local/bin'' \<and>
   \<not> is_windows (sim_env ''Linux'' (Some ''/opt/bin:/usr/local/bin'')) \<and>
   possible_paths (sim_env ''Linux'' (Some ''/opt/bin:/usr/local/bin'')) =
     Inr [''/usr/bin/aria2c'', ''/usr/local/bin/aria2c'', ''/opt/homebrew/bin/aria2c'',
          ''/opt/bin/aria2c'', ''/usr/local/bin/aria2c''] \<and>
   find_aria2_executable (sim_env ''Linux'' (Some ''/opt/bin:/usr/local/bin'')) two_installs =
     Inr (Some ''/usr/local/bin/aria2c'') \<and>
   find_aria2_executable (sim_env ''Linux'' (Some ''/opt/bin:/usr/local/bin''))
     (idle\<lparr>w_files := []\<rparr>) = Inr None \<and>
   environ_PATH (sim_env ''Windows'' (Some ''C:/bin;D:/tools'')) = Some ''C:/bin;D:/tools'' \<and>
   is_windows (sim_env ''Windows'' (Some ''C:/bin;D:/tools'')) \<and>
   search_path_candidates (sim_env ''Windows'' (Some ''C:/bin;D:/tools'')) ''C:/bin;D:/tools'' =
     [''C:/bin/aria2c.exe'', ''D:/tools/aria2c.exe''] \<and>
   find_aria2_executable (sim_env ''Windows'' (Some ''C:/bin;D:/tools'')) windows_install =
     Inr (Some ''D:/tools/aria2c.exe'')"
proof -
  let ?lx = "sim_env ''Linux'' (Some ''/opt/bin:/usr/local/bin'')"
  let ?wn = "sim_env ''Windows'' (Some ''C:/bin;D:/tools'')"
  have h: "environ_PATH ?lx = Some ''/opt/bin:/usr/local/bin''"
    by (simp add: sim_env_def)
  have nw: "\<not> is_windows ?lx" by (simp add: is_windows_def sim_env_def)
  have c: "well_known_paths ?lx @ search_path_candidates ?lx ''/opt/bin:/usr/local/bin'' =
           [''/usr/bin/aria2c'', ''/usr/local/bin/aria2c'', ''/opt/homebrew/bin/aria2c'',
            ''/opt/bin/aria2c'', ''/usr/local/bin/aria2c'']"
    by (simp add: well_known_paths_def search_path_candidates_def is_windows_def sim_env_def)
  have f: "find_aria2_executable ?lx two_installs = Inr (Some ''/usr/local/bin/aria2c'')"
    by (simp add: find_aria2_executable_def possible_paths_eq [OF h] c)
       (simp add: sim_env_def two_installs_def idle_def)
  have g: "find_aria2_executable ?lx (idle\<lparr>w_files := []\<rparr>) = Inr None"
    by (simp add: find_aria2_executable_def possible_paths_eq [OF h] c)
       (simp add: sim_env_def idle_def)
  have h': "environ_PATH ?wn = Some ''C:/bin;D:/tools''"
    by (simp add: sim_env_def)
  have iw: "is_windows ?wn" by (simp add: is_windows_def sim_env_def)
  have sc: "search_path_candidates ?wn ''C:/bin;D:/tools'' =
              [''C:/bin/aria2c.exe'', ''D:/tools/aria2c.exe'']"
    by (simp add: search_path_candidates_def is_windows_def sim_env_def)
  have f': "find_aria2_executable ?wn windows_install = Inr (Some ''D:/tools/aria2c.exe'')"
    by (simp add: find_aria2_executable_def possible_paths_eq [OF h'] sc)
       (simp add: well_known_paths_def is_windows_def bs_def sim_env_def windows_install_def
          idle_def)
  from find_aria2_executable_first [OF h, of two_installs]
    find_aria2_executable_first [OF h', of windows_install]
    h nw c f g h' iw sc f'
  show ?thesis by simp
qed

theorem path_unset_counterexample:
  "environ_PATH (sim_env ''Linux'' None) = None \<and>
   path_exists (sim_env ''Linux'' None) idle ''/usr/bin/aria2c'' \<and>
   find_aria2_executable (sim_env ''Linux'' None) idle =
     Inl (Exn KeyError ([CHR 0x27] @ ''PATH'' @ [CHR 0x27]))"
  by (simp add: find_aria2_executable_def possible_paths_def sim_env_def idle_def)

subsection \<open>Routing of enqueued links\<close>

lemma rpc_add_trace: "snd (snd (rpc_add e cl opts url s)) = snd s @ [routed opts url]"
  by (simp add: rpc_add_def routed_def split: prod.splits)

lemma enqueue_urls_trace:
  "snd (snd (enqueue_urls e cl opts urls a s)) =
     snd s @ map (routed opts) (filter (\<lambda>u. strip u \<noteq> []) urls)"
proof (induction urls arbitrary: a s)
  case Nil
  show ?case by simp
next
  case (Cons u us)
  show ?case
  proof (cases "strip u \<noteq> []")
    case False
    then show ?thesis using Cons.IH [of a s] by simp
  next
    case True
    obtain r1 s1 where p: "rpc_add e cl opts u s = (r1, s1)" by (cases "rpc_add e cl opts u s")
    with rpc_add_trace [of e cl opts u s] have tr: "snd s1 = snd s @ [routed opts u]" by simp
    show ?thesis
    proof (cases r1)
      case (Inl x)
      with True p tr Cons.IH [of "log_status (TaskAddFailed u (msg x)) a" s1]
      show ?thesis by simp
    next
      case (Inr d)
      with True p tr Cons.IH [of "log_status (TaskAdded u) (add_to_download_list d a)" s1]
      show ?thesis by simp
    qed
  qed
qed

lemma magnet_not_blank:
  assumes "startswith u ''magnet:''"
  shows "strip u \<noteq> []"
proof -
  from assms obtain rest where u: "u = CHR ''m'' # rest"
    by (cases u) (auto simp: startswith_def)
  have m: "\<not> py_isspace CHR ''m''" by (simp add: py_isspace_def)
  then have "dropWhile py_isspace u = u" using u by simp
  moreover have "dropWhile py_isspace (rev u) \<noteq> []"
    using u m by (auto simp: dropWhile_eq_Nil_conv)
  ultimately show ?thesis by (simp add: strip_def)
qed

lemma routed_magnet_iff:
  "AddMagnet u opts' \<in> routed opts ` A \<longleftrightarrow>
     u \<in> A \<and> startswith u ''magnet:'' \<and> opts' = opts"
  by (auto simp: routed_def image_iff split: if_splits)

lemma routed_uris_iff:
  "AddUris l opts' \<in> routed opts ` A \<longleftrightarrow>
     (\<exists>u \<in> A. l = [u] \<and> \<not> startswith u ''magnet:'' \<and> \<not> endswith u ''.torrent'') \<and>
     opts' = opts"
  by (auto simp: routed_def image_iff split: if_splits)

lemma ensure_dir_trace:
  "snd (snd (ensure_dir e p s)) = snd s \<or> snd (snd (ensure_dir e p s)) = snd s @ [Makedirs p]"
  by (simp add: ensure_dir_def split: prod.splits)

lemma start_download_go:
  assumes "aria2_client a = Some cl"
    and "\<not> (splitlines (strip (url_text a)) = [] \<or> splitlines (strip (url_text a)) = [[]])"
    and "ensure_dir e (download_path_var a) s = (None, s1)"
    and "with_speed_limit a = Inr opts"
  shows "snd (snd (snd (start_download e a s))) =
           snd s1 @ map (routed opts)
                      (filter (\<lambda>u. strip u \<noteq> []) (splitlines (strip (url_text a))))"
proof -
  from assms
  have "snd (snd (start_download e a s)) =
          snd (enqueue_urls e cl opts (splitlines (strip (url_text a))) a s1)"
    by (simp add: start_download_def Let_def split: prod.splits)
  then show ?thesis by (simp add: enqueue_urls_trace)
qed

lemma start_download_events:
  "\<exists>pre us.
      snd (snd (snd (start_download e a s))) = snd s @ pre @ us \<and>
      set pre \<subseteq> {ShowError, ShowWarning, Makedirs (download_path_var a)} \<and>
      (us = [] \<or>
       (\<exists>opts. with_speed_limit a = Inr opts \<and>
          us = map (routed opts)
                 (filter (\<lambda>u. strip u \<noteq> []) (splitlines (strip (url_text a)))))) \<and>
      (\<forall>cl opts. aria2_client a = Some cl \<and>
          \<not> (splitlines (strip (url_text a)) = [] \<or> splitlines (strip (url_text a)) = [[]]) \<and>
          fst (ensure_dir e (download_path_var a) s) = None \<and>
          with_speed_limit a = Inr opts \<longrightarrow>
            us = map (routed opts)
                   (filter (\<lambda>u. strip u \<noteq> []) (splitlines (strip (url_text a)))))"
proof (cases "aria2_client a")
  case None
  then have "snd (snd (snd (start_download e a s))) = snd s @ [ShowError] @ []"
    by (simp add: start_download_def)
  then show ?thesis using None by (intro exI [of _ "[ShowError]"] exI [of _ "[]"]) simp
next
  case (Some cl)
  let ?urls = "splitlines (strip (url_text a))"
  show ?thesis
  proof (cases "?urls = [] \<or> ?urls = [[]]")
    case True
    with Some have "snd (snd (snd (start_download e a s))) = snd s @ [ShowWarning] @ []"
      by (simp add: start_download_def Let_def)
    then show ?thesis using True by (intro exI [of _ "[ShowWarning]"] exI [of _ "[]"]) simp
  next
    case False
    obtain r1 s1 where d: "ensure_dir e (download_path_var a) s = (r1, s1)"
      by (cases "ensure_dir e (download_path_var a) s")
    from ensure_dir_trace [of e "download_path_var a" s] d
    obtain pre where pre: "snd s1 = snd s @ pre" "set pre \<subseteq> {Makedirs (download_path_var a)}"
      by auto
    have pre': "set pre \<subseteq> {ShowError, ShowWarning, Makedirs (download_path_var a)}"
      using pre(2) by auto
    show ?thesis
    proof (cases r1)
      case (Some x)
      with \<open>aria2_client a = Some cl\<close> False d
      have "snd (snd (start_download e a s)) = s1"
        by (simp add: start_download_def Let_def)
      then have "snd (snd (snd (start_download e a s))) = snd s @ pre @ []"
        using pre(1) by simp
      then show ?thesis using pre' Some d
        by (intro exI [of _ pre] exI [of _ "[]"]) simp
    next
      case None
      note r1 = None
      show ?thesis
      proof (cases "with_speed_limit a")
        case (Inl x)
        with \<open>aria2_client a = Some cl\<close> False d r1
        have "snd (snd (start_download e a s)) = s1"
          by (simp add: start_download_def Let_def)
        then have "snd (snd (snd (start_download e a s))) = snd s @ pre @ []"
          using pre(1) by simp
        then show ?thesis using pre' Inl
          by (intro exI [of _ pre] exI [of _ "[]"]) simp
      next
        case (Inr opts)
        with \<open>aria2_client a = Some cl\<close> False d r1
        have "snd (snd (start_download e a s)) = snd (enqueue_urls e cl opts ?urls a s1)"
          by (simp add: start_download_def Let_def split: prod.splits)
        then have "snd (snd (snd (start_download e a s))) =
            snd s @ pre @ map (routed opts) (filter (\<lambda>u. strip u \<noteq> []) ?urls)"
          using pre(1) by (simp add: enqueue_urls_trace)
        then show ?thesis using pre' Inr
          by (intro exI [of _ pre]
                exI [of _ "map (routed opts) (filter (\<lambda>u. strip u \<noteq> []) ?urls)"]) simp
      qed
    qed
  qed
qed

lemma strip_nonblank_iff: "strip u \<noteq> [] \<longleftrightarrow> (\<exists>ch \<in> set u. \<not> py_isspace ch)"
proof -
  have "dropWhile py_isspace u \<noteq> [] \<Longrightarrow> \<not> py_isspace (hd (dropWhile py_isspace u))"
    by (rule hd_dropWhile)
  then have a: "dropWhile py_isspace u \<noteq> [] \<longleftrightarrow>
      (\<exists>ch \<in> set (dropWhile py_isspace u). \<not> py_isspace ch)"
    by (metis hd_in_set empty_iff list.set(1))
  have "strip u \<noteq> [] \<longleftrightarrow> (\<exists>ch \<in> set (dropWhile py_isspace u). \<not> py_isspace ch)"
    by (auto simp: strip_def dropWhile_eq_Nil_conv)
  also have "\<dots> \<longleftrightarrow> dropWhile py_isspace u \<noteq> []" using a by simp
  also have "\<dots> \<longleftrightarrow> (\<exists>ch \<in> set u. \<not> py_isspace ch)"
    by (auto simp: dropWhile_eq_Nil_conv)
  finally show ?thesis .
qed

lemma torrent_not_blank:
  assumes "endswith u ''.torrent''"
  shows "strip u \<noteq> []"
proof -
  from assms have "drop (length u - length ''.torrent'') u = ''.torrent''"
    by (simp add: endswith_def)
  then have "CHR ''.'' \<in> set (drop (length u - length ''.torrent'') u)" by simp
  then have "CHR ''.'' \<in> set u" by (rule in_set_dropD)
  moreover have "\<not> py_isspace CHR ''.''" by (simp add: py_isspace_def)
  ultimately show ?thesis unfolding strip_nonblank_iff by blast
qed

lemma routed_torrent_iff:
  "AddTorrent u opts' \<in> routed opts ` A \<longleftrightarrow>
     u \<in> A \<and> \<not> startswith u ''magnet:'' \<and> endswith u ''.torrent'' \<and> opts' = opts"
  by (auto simp: routed_def image_iff split: if_splits)

text \<open>
  Claim C8, as amended. Among the events \<open>start_download\<close> adds to the trace, a magnet-add
  always carries a link that begins with \<^verbatim>\<open>magnet:\<close>; a torrent-add always carries a link
  that does not begin with \<^verbatim>\<open>magnet:\<close> and ends with \<^verbatim>\<open>.torrent\<close>; a URI-add always
  carries one link, which neither begins with \<^verbatim>\<open>magnet:\<close> nor ends with \<^verbatim>\<open>.torrent\<close>.
  And when the enqueue goes through (a client is connected, the directory step and the
  rate limit do not raise), every line of the URL box that begins with \<^verbatim>\<open>magnet:\<close> is
  submitted by magnet-add, every other line that ends with \<^verbatim>\<open>.torrent\<close> by torrent-add,
  and every other non-blank line by URI-add, all with the options built from the form;
  the submissions are made once per non-blank line, in the order of the lines.
\<close>

theorem start_download_routing:
  "\<exists>new. snd (snd (snd (start_download e a s))) = snd s @ new \<and>
     (\<forall>u opts. AddMagnet u opts \<in> set new \<longrightarrow> startswith u ''magnet:'') \<and>
     (\<forall>u opts. AddTorrent u opts \<in> set new \<longrightarrow>
          \<not> startswith u ''magnet:'' \<and> endswith u ''.torrent'') \<and>
     (\<forall>l opts. AddUris l opts \<in> set new \<longrightarrow>
          (\<exists>u. l = [u] \<and> \<not> startswith u ''magnet:'' \<and> \<not> endswith u ''.torrent'')) \<and>
     (\<forall>cl opts. aria2_client a = Some cl \<and>
         fst (ensure_dir e (download_path_var a) s) = None \<and>
         with_speed_limit a = Inr opts \<longrightarrow>
           (\<forall>u \<in> set (splitlines (strip (url_text a))).
               (startswith u ''magnet:'' \<longrightarrow> AddMagnet u opts \<in> set new) \<and>
               (\<not> startswith u ''magnet:'' \<and> endswith u ''.torrent'' \<longrightarrow>
                  AddTorrent u opts \<in> set new) \<and>
               (strip u \<noteq> [] \<and> \<not> startswith u ''magnet:'' \<and> \<not> endswith u ''.torrent'' \<longrightarrow>
                  AddUris [u] opts \<in> set new)) \<and>
           (\<not> (splitlines (strip (url_text a)) = [] \<or> splitlines (strip (url_text a)) = [[]]) \<longrightarrow>
              snd (snd (snd (start_download e a s))) =
                snd (snd (ensure_dir e (download_path_var a) s)) @
                map (\<lambda>u. if startswith u ''magnet:'' then AddMagnet u opts
                         else if endswith u ''.torrent'' then AddTorrent u opts
                         else AddUris [u] opts)
                    (filter (\<lambda>u. strip u \<noteq> []) (splitlines (strip (url_text a))))))"
proof -
  let ?urls = "splitlines (strip (url_text a))"
  let ?keep = "filter (\<lambda>u. strip u \<noteq> []) ?urls"
  from start_download_events [of e a s] obtain pre us where
    tr: "snd (snd (snd (start_download e a s))) = snd s @ pre @ us"
    and pre: "set pre \<subseteq> {ShowError, ShowWarning, Makedirs (download_path_var a)}"
    and us: "us = [] \<or> (\<exists>opts. with_speed_limit a = Inr opts \<and> us = map (routed opts) ?keep)"
    and go: "\<forall>cl opts. aria2_client a = Some cl \<and> \<not> (?urls = [] \<or> ?urls = [[]]) \<and>
          fst (ensure_dir e (download_path_var a) s) = None \<and>
          with_speed_limit a = Inr opts \<longrightarrow> us = map (routed opts) ?keep"
    by blast
  have m: "startswith u ''magnet:''" if "AddMagnet u opts \<in> set (pre @ us)" for u opts
  proof -
    from that pre have "AddMagnet u opts \<in> set us" by auto
    with us show ?thesis by (auto simp: routed_magnet_iff)
  qed
  have t: "\<not> startswith u ''magnet:'' \<and> endswith u ''.torrent''"
    if "AddTorrent u opts \<in> set (pre @ us)" for u opts
  proof -
    from that pre have "AddTorrent u opts \<in> set us" by auto
    with us show ?thesis by (auto simp: routed_torrent_iff)
  qed
  have n: "\<exists>u. l = [u] \<and> \<not> startswith u ''magnet:'' \<and> \<not> endswith u ''.torrent''"
    if "AddUris l opts \<in> set (pre @ us)" for l opts
  proof -
    from that pre have "AddUris l opts \<in> set us" by auto
    with us show ?thesis by (auto simp: routed_uris_iff)
  qed
  have g: "(startswith u ''magnet:'' \<longrightarrow> AddMagnet u opts \<in> set (pre @ us)) \<and>
           (\<not> startswith u ''magnet:'' \<and> endswith u ''.torrent'' \<longrightarrow>
              AddTorrent u opts \<in> set (pre @ us)) \<and>
           (strip u \<noteq> [] \<and> \<not> startswith u ''magnet:'' \<and> \<not> endswith u ''.torrent'' \<longrightarrow>
              AddUris [u] opts \<in> set (pre @ us))"
    if h: "aria2_client a = Some cl" "fst (ensure_dir e (download_path_var a) s) = None"
          "with_speed_limit a = Inr opts"
      and u: "u \<in> set ?urls" for cl opts u
  proof (cases "?urls = [] \<or> ?urls = [[]]")
    case True
    with u have "u = []" by auto
    then show ?thesis by (simp add: startswith_def endswith_def strip_def)
  next
    case False
    with go h have e: "us = map (routed opts) ?keep" by blast
    show ?thesis
    proof (intro conjI impI)
      assume "startswith u ''magnet:''"
      with u magnet_not_blank [of u] show "AddMagnet u opts \<in> set (pre @ us)"
        by (simp add: e routed_magnet_iff)
    next
      assume "\<not> startswith u ''magnet:'' \<and> endswith u ''.torrent''"
      with u torrent_not_blank [of u] show "AddTorrent u opts \<in> set (pre @ us)"
        by (simp add: e routed_torrent_iff)
    next
      assume "strip u \<noteq> [] \<and> \<not> startswith u ''magnet:'' \<and> \<not> endswith u ''.torrent''"
      with u show "AddUris [u] opts \<in> set (pre @ us)"
        by (auto simp: e routed_uris_iff)
    qed
  qed
  have x: "snd (snd (snd (start_download e a s))) =
             snd (snd (ensure_dir e (download_path_var a) s)) @
             map (\<lambda>u. if startswith u ''magnet:'' then AddMagnet u opts
                      else if endswith u ''.torrent'' then AddTorrent u opts
                      else AddUris [u] opts) ?keep"
    if h: "aria2_client a = Some cl" "fst (ensure_dir e (download_path_var a) s) = None"
          "with_speed_limit a = Inr opts"
      and ne: "\<not> (?urls = [] \<or> ?urls = [[]])" for cl opts
  proof -
    obtain s1 where d: "ensure_dir e (download_path_var a) s = (None, s1)"
      using h(2) by (cases "ensure_dir e (download_path_var a) s") auto
    have r: "routed opts = (\<lambda>u. if startswith u ''magnet:'' then AddMagnet u opts
                      else if endswith u ''.torrent'' then AddTorrent u opts
                      else AddUris [u] opts)"
      by (rule ext) (simp add: routed_def)
    from start_download_go [OF h(1) ne d h(3)] d show ?thesis
      unfolding r by simp
  qed
  show ?thesis
    by (rule exI [of _ "pre @ us"]) (use tr m t n g x in blast)
qed

theorem start_download_routing_witness:
  "aria2_client app_three = Some (6800, ''my_secret'') \<and>
   fst (ensure_dir (sim_env ''Linux'' None) (download_path_var app_three) (serving, [])) = None \<and>
   with_speed_limit app_three = Inr dl_options \<and>
   splitlines (strip (url_text app_three)) =
     [''magnet:?xt=urn:btih:ABC'', ''http://x/y.iso'', ''http://x/y.torrent''] \<and>
   startswith ''magnet:?xt=urn:btih:ABC'' ''magnet:'' \<and>
   \<not> startswith ''http://x/y.iso'' ''magnet:'' \<and> \<not> endswith ''http://x/y.iso'' ''.torrent'' \<and>
   \<not> startswith ''http://x/y.torrent'' ''magnet:'' \<and> endswith ''http://x/y.torrent'' ''.torrent'' \<and>
   snd (snd (snd (start_download (sim_env ''Linux'' None) app_three (serving, [])))) =
     [Makedirs ''/tmp/dl'', AddMagnet ''magnet:?xt=urn:btih:ABC'' dl_options,
      AddUris [''http://x/y.iso''] dl_options, AddTorrent ''http://x/y.torrent'' dl_options]"
proof -
  have h1: "aria2_client app_three = Some (6800, ''my_secret'')"
    by (simp add: app_three_def app0_def)
  have d: "ensure_dir (sim_env ''Linux'' None) (download_path_var app_three) (serving, []) =
      (None, (serving\<lparr>w_files := [''/usr/bin/aria2c'', ''/tmp/dl'']\<rparr>, [Makedirs ''/tmp/dl'']))"
    by (simp add: ensure_dir_def sim_simps app_three_def app0_def serving_def running_def)
  then have h2: "fst (ensure_dir (sim_env ''Linux'' None) (download_path_var app_three)
                        (serving, [])) = None"
    by simp
  have h3: "with_speed_limit app_three = Inr dl_options"
    by (simp add: with_speed_limit_def base_options_def py_int_def parse_unsigned_def
          int_space_def is_digit_def app_three_def app0_def dl_options_def)
  have h4: "splitlines (strip (url_text app_three)) =
              [''magnet:?xt=urn:btih:ABC'', ''http://x/y.iso'', ''http://x/y.torrent'']"
    by (simp add: splitlines_def strip_def py_isspace_def is_linebreak_def app_three_def app0_def)
  have k: "startswith ''magnet:?xt=urn:btih:ABC'' ''magnet:''"
    "\<not> startswith ''http://x/y.iso'' ''magnet:''" "\<not> endswith ''http://x/y.iso'' ''.torrent''"
    "\<not> startswith ''http://x/y.torrent'' ''magnet:''" "endswith ''http://x/y.torrent'' ''.torrent''"
    by (simp_all add: startswith_def endswith_def)
  have nb: "strip ''magnet:?xt=urn:btih:ABC'' \<noteq> []" "strip ''http://x/y.iso'' \<noteq> []"
    "strip ''http://x/y.torrent'' \<noteq> []"
    by (simp_all add: strip_def py_isspace_def)
  have n: "\<not> (splitlines (strip (url_text app_three)) = [] \<or>
              splitlines (strip (url_text app_three)) = [[]])"
    by (simp add: h4)
  from start_download_routing [of "sim_env ''Linux'' None" app_three "(serving, [])"]
  obtain new where
    "\<forall>cl opts. aria2_client app_three = Some cl \<and>
         fst (ensure_dir (sim_env ''Linux'' None) (download_path_var app_three) (serving, [])) = None \<and>
         with_speed_limit app_three = Inr opts \<longrightarrow>
           (\<forall>u \<in> set (splitlines (strip (url_text app_three))).
               (startswith u ''magnet:'' \<longrightarrow> AddMagnet u opts \<in> set new) \<and>
               (\<not> startswith u ''magnet:'' \<and> endswith u ''.torrent'' \<longrightarrow>
                  AddTorrent u opts \<in> set new) \<and>
               (strip u \<noteq> [] \<and> \<not> startswith u ''magnet:'' \<and> \<not> endswith u ''.torrent'' \<longrightarrow>
                  AddUris [u] opts \<in> set new)) \<and>
           (\<not> (splitlines (strip (url_text app_three)) = [] \<or>
               splitlines (strip (url_text app_three)) = [[]]) \<longrightarrow>
              snd (snd (snd (start_download (sim_env ''Linux'' None) app_three (serving, [])))) =
                snd (snd (ensure_dir (sim_env ''Linux'' None) (download_path_var app_three)
                            (serving, []))) @
                map (\<lambda>u. if startswith u ''magnet:'' then AddMagnet u opts
                         else if endswith u ''.torrent'' then AddTorrent u opts
                         else AddUris [u] opts)
                    (filter (\<lambda>u. strip u \<noteq> []) (splitlines (strip (url_text app_three)))))"
    by blast
  with h1 h2 h3 n have
    "snd (snd (snd (start_download (sim_env ''Linux'' None) app_three (serving, [])))) =
       snd (snd (ensure_dir (sim_env ''Linux'' None) (download_path_var app_three) (serving, []))) @
       map (\<lambda>u. if startswith u ''magnet:'' then AddMagnet u dl_options
                else if endswith u ''.torrent'' then AddTorrent u dl_options
                else AddUris [u] dl_options)
           (filter (\<lambda>u. strip u \<noteq> []) (splitlines (strip (url_text app_three))))"
    by blast
  then have
    "snd (snd (snd (start_download (sim_env ''Linux'' None) app_three (serving, [])))) =
     [Makedirs ''/tmp/dl'', AddMagnet ''magnet:?xt=urn:btih:ABC'' dl_options,
      AddUris [''http://x/y.iso''] dl_options, AddTorrent ''http://x/y.torrent'' dl_options]"
    unfolding h4 d by (simp add: k nb)
  with h1 h2 h3 h4 k show ?thesis by simp
qed

theorem http_torrent_link_counterexample:
  "splitlines (strip (url_text app_torrent)) = [''http://x/y.torrent''] \<and>
   \<not> startswith ''http://x/y.torrent'' ''magnet:'' \<and>
   snd (snd (snd (start_download (sim_env ''Linux'' None) app_torrent (serving, [])))) =
     [Makedirs ''/tmp/dl'', AddTorrent ''http://x/y.torrent'' dl_options]"
proof -
  have h1: "aria2_client app_torrent = Some (6800, ''my_secret'')"
    by (simp add: app_torrent_def app0_def)
  have d: "ensure_dir (sim_env ''Linux'' None) (download_path_var app_torrent) (serving, []) =
      (None, (serving\<lparr>w_files := [''/usr/bin/aria2c'', ''/tmp/dl'']\<rparr>, [Makedirs ''/tmp/dl'']))"
    by (simp add: ensure_dir_def sim_simps app_torrent_def app0_def serving_def running_def)
  have h3: "with_speed_limit app_torrent = Inr dl_options"
    by (simp add: with_speed_limit_def base_options_def py_int_def parse_unsigned_def
          int_space_def is_digit_def app_torrent_def app0_def dl_options_def)
  have h4: "splitlines (strip (url_text app_torrent)) = [''http://x/y.torrent'']"
    by (simp add: splitlines_def strip_def py_isspace_def is_linebreak_def app_torrent_def
          app0_def)
  have n: "\<not> (splitlines (strip (url_text app_torrent)) = [] \<or>
              splitlines (strip (url_text app_torrent)) = [[]])"
    by (simp add: h4)
  have nb: "strip ''http://x/y.torrent'' \<noteq> []"
    by (simp add: strip_def py_isspace_def)
  have rt: "routed dl_options ''http://x/y.torrent'' = AddTorrent ''http://x/y.torrent'' dl_options"
    "\<not> startswith ''http://x/y.torrent'' ''magnet:''"
    by (simp_all add: routed_def startswith_def endswith_def)
  have "snd (snd (snd (start_download (sim_env ''Linux'' None) app_torrent (serving, [])))) =
     [Makedirs ''/tmp/dl'', AddTorrent ''http://x/y.torrent'' dl_options]"
    using start_download_go [OF h1 n d h3] unfolding h4 by (simp add: nb rt)
  with h4 rt(2) show ?thesis by simp
qed

end
